theory Spec2Isabelle
  imports Main
begin

section \<open>The Confluence collator: data model\<close>

text \<open>
  The development embeds \<^verbatim>\<open>ConfluenceCollatorFactory.ts\<close> and the types of
  \<^verbatim>\<open>types.ts\<close>. A JavaScript string is a \<open>string\<close>; one \<open>char\<close> stands for one
  UTF-16 code unit, so the strings covered are those whose code units are below
  \<open>0x100\<close>. Calls to the logger return nothing and change no value the collator
  computes; they are left out. Every other call that can throw or reject is a branch
  returning \<open>Inl\<close>.
\<close>

datatype error =
    RequestFailed nat string
  | FetchError string
  | TypeError string
  | ConfigError string
  | CatalogError string

text \<open>
  \<open>RequestFailed status statusText\<close> is the
  \<^verbatim>\<open>Error(`Request failed with ${res.status} ${res.statusText}`)\<close> thrown by \<open>get\<close>.
  \<open>FetchError\<close> is a rejection of the HTTP library: of \<^verbatim>\<open>fetch(...)\<close> itself, or of
  reading (\<^verbatim>\<open>res.text()\<close>) or decoding (\<^verbatim>\<open>res.json()\<close>) the body. \<open>TypeError\<close> is
  JavaScript's own, \<open>ConfigError\<close> a throwing configuration getter, \<open>CatalogError\<close> a
  rejected catalog query.
\<close>

subsection \<open>types.ts\<close>

definition ANNOTATION_OVO_CONFLUENCE_SPACES :: string where
  "ANNOTATION_OVO_CONFLUENCE_SPACES = ''ovo.com/confluence-spaces''"

text \<open>
  Nested objects are flattened into the access path: \<^verbatim>\<open>_links.self\<close> is \<open>links_self\<close>,
  \<^verbatim>\<open>space._links.webui\<close> is \<open>space_links_webui\<close>. The fields the code tests for
  presence before use (\<^verbatim>\<open>status\<close>, \<^verbatim>\<open>results\<close>, \<^verbatim>\<open>_links.next\<close>) are optional.
\<close>

record ConfluenceDocumentMetadata =
  title :: string
  status :: "string option"
  links_self :: string
  links_webui :: string

record ConfluenceDocumentList =
  results :: "ConfluenceDocumentMetadata list option"
  links_next :: "string option"

record ConfluenceDocument = ConfluenceDocumentMetadata +
  body_storage_value :: string
  version_by_publicName :: string
  version_when :: string
  version_friendlyWhen :: string
  space_key :: string
  space_name :: string
  space_links_webui :: string
  ancestors :: "ConfluenceDocumentMetadata list"

record IndexableAncestorRef =
  ref_title :: string
  ref_location :: string

record IndexableConfluenceDocument =
  doc_title :: string
  doc_text :: string
  doc_location :: string
  spaceKey :: string
  spaceName :: string
  doc_ancestors :: "IndexableAncestorRef list"
  lastModifiedBy :: string
  lastModified :: string
  lastModifiedFriendly :: string

subsection \<open>The collaborators: configuration, catalog, HTTP\<close>

record Config =
  getString :: "string \<Rightarrow> error + string"
  getStringArray :: "string \<Rightarrow> error + string list"

datatype filterValue = FilterString string | CATALOG_FILTER_EXISTS

record Entity =
  metadata_annotations :: "(string \<rightharpoonup> string) option"

record CatalogApi =
  getEntities :: "(string \<times> filterValue) list list \<Rightarrow> error + Entity list"

text \<open>
  The response of \<^verbatim>\<open>fetch\<close>: the fields \<open>get\<close> reads. Reading the body as text and
  decoding it as JSON may each reject. The wiki is a function from the request URL to
  the response (or to the rejection of \<^verbatim>\<open>fetch\<close>): the Authorization header is the
  same for every request of a collator, and the wiki is taken to answer a URL the same
  way throughout one run. \<open>get\<close> is generic in the type of the decoded body, as
  \<^verbatim>\<open>get<T>\<close> is, so the listing endpoint and the page endpoint are two typed views
  of the one wiki (\<open>fetchList\<close> and \<open>fetchDocument\<close> in \<open>execute\<close>). The state threaded
  through the collator is the list of the URLs requested so far, oldest first.
\<close>

record 'a Response =
  res_ok :: bool
  res_status :: nat
  res_statusText :: string
  res_text :: "error + string"
  res_json :: "error + 'a"

type_synonym 'a fetch = "string \<Rightarrow> error + 'a Response"

type_synonym requests = "string list"

subsection \<open>The collator and its options\<close>

record Options =
  opt_parallelismLimit :: "int option"
  opt_catalogClient :: "CatalogApi option"

record ConfluenceCollatorFactory =
  parallelismLimit :: int
  wikiUrl :: string
  spaces :: "string list"
  auth_username :: string
  auth_password :: string
  catalogClient :: "CatalogApi option"

definition RESOURCE_TYPE_CONFLUENCE_SPACES :: string where
  "RESOURCE_TYPE_CONFLUENCE_SPACES = ''confluence-spaces''"

section \<open>The operations\<close>

subsection \<open>fromConfig\<close>

text \<open>
  \<^verbatim>\<open>options.parallelismLimit || 15\<close>: the right operand is taken when the left one is
  falsy, that is absent or zero. The getters are called in the order of the object
  literal and the first one that throws ends the construction.
\<close>

definition fromConfig :: "Config \<Rightarrow> Options \<Rightarrow> error + ConfluenceCollatorFactory" where
  "fromConfig config options =
     (let limit = (case opt_parallelismLimit options of
                     None \<Rightarrow> 15
                   | Some n \<Rightarrow> if n = 0 then 15 else n)
      in case getString config ''confluence.wikiUrl'' of
           Inl e \<Rightarrow> Inl e
         | Inr url \<Rightarrow>
      (case getStringArray config ''confluence.spaces'' of
           Inl e \<Rightarrow> Inl e
         | Inr sp \<Rightarrow>
      (case getString config ''confluence.auth.username'' of
           Inl e \<Rightarrow> Inl e
         | Inr username \<Rightarrow>
      (case getString config ''confluence.auth.password'' of
           Inl e \<Rightarrow> Inl e
         | Inr password \<Rightarrow>
             Inr \<lparr> parallelismLimit = limit, wikiUrl = url, spaces = sp,
                   auth_username = username, auth_password = password,
                   catalogClient = opt_catalogClient options \<rparr>))))"

subsection \<open>stripHtml\<close>

text \<open>
  \<^verbatim>\<open>input.replace(/(<([^>]+)>)/gi, '')\<close>. The pattern has no letter, so the flag
  \<^verbatim>\<open>i\<close> changes nothing. At a \<^verbatim>\<open><\<close> the greedy class \<^verbatim>\<open>[^>]+\<close> takes every
  code unit up to the next \<^verbatim>\<open>>\<close>; the match succeeds when it took at least one and a
  \<^verbatim>\<open>>\<close> follows, and giving code units back cannot help, because none of them is a
  \<^verbatim>\<open>>\<close>. \<open>matchTag cs\<close> is that attempt on the text \<open>cs\<close> after the \<^verbatim>\<open><\<close>: the text
  after the closing \<^verbatim>\<open>>\<close>, or \<open>None\<close>. The global replacement goes on after a match
  and one code unit further after a failed attempt.
\<close>

definition matchTag :: "string \<Rightarrow> string option" where
  "matchTag cs =
     (let inner = takeWhile (\<lambda>c. c \<noteq> CHR ''>'') cs;
          rest = dropWhile (\<lambda>c. c \<noteq> CHR ''>'') cs
      in if inner = [] \<or> rest = [] then None else Some (tl rest))"

function stripHtml :: "string \<Rightarrow> string" where
  "stripHtml [] = []"
| "stripHtml (c # cs) =
     (if c = CHR ''<''
      then (case matchTag cs of
              Some rest \<Rightarrow> stripHtml rest
            | None \<Rightarrow> c # stripHtml cs)
      else c # stripHtml cs)"
  by pat_completeness auto
termination
proof (relation "measure length")
  show "wf (measure length)" by simp
next
  fix c :: char and cs rest :: string
  assume "matchTag cs = Some rest"
  then have ne: "dropWhile (\<lambda>c. c \<noteq> CHR ''>'') cs \<noteq> []"
    and r: "rest = tl (dropWhile (\<lambda>c. c \<noteq> CHR ''>'') cs)"
    by (auto simp: matchTag_def Let_def split: if_splits)
  have "length (dropWhile (\<lambda>c. c \<noteq> CHR ''>'') cs) \<le> length cs"
    by (rule length_dropWhile_le)
  with ne r have "length rest < length cs"
    by (cases "dropWhile (\<lambda>c. c \<noteq> CHR ''>'') cs") auto
  then show "(rest, c # cs) \<in> measure length" by simp
qed simp_all

subsection \<open>get\<close>

definition get :: "'a fetch \<Rightarrow> string \<Rightarrow> requests \<Rightarrow> (error + 'a) \<times> requests" where
  "get fetch requestUrl lg =
     (let lg' = lg @ [requestUrl]
      in case fetch requestUrl of
           Inl e \<Rightarrow> (Inl e, lg')
         | Inr res \<Rightarrow>
             if \<not> res_ok res
             then (case res_text res of
                     Inl e \<Rightarrow> (Inl e, lg')
                   | Inr body \<Rightarrow>
                       (Inl (RequestFailed (res_status res) (res_statusText res)), lg'))
             else (res_json res, lg'))"

subsection \<open>getSpaces\<close>

text \<open>
  \<^verbatim>\<open>String.prototype.split\<close> with a one-character separator, and
  \<^verbatim>\<open>String.prototype.trim\<close>. The white space and line terminators of JavaScript
  below \<open>0x100\<close> are tab, line feed, vertical tab, form feed, carriage return, space
  and no-break space.
\<close>

fun split :: "char \<Rightarrow> string \<Rightarrow> string list" where
  "split sep [] = [[]]"
| "split sep (c # cs) =
     (if c = sep then [] # split sep cs
      else (case split sep cs of
              [] \<Rightarrow> [[c]]
            | t # ts \<Rightarrow> (c # t) # ts))"

definition isWhiteSpace :: "char \<Rightarrow> bool" where
  "isWhiteSpace c = ((of_char c :: nat) \<in> {9, 10, 11, 12, 13, 32, 160})"

definition trim :: "string \<Rightarrow> string" where
  "trim s = rev (dropWhile isWhiteSpace (rev (dropWhile isWhiteSpace s)))"

definition confluenceSpacesFilter :: "(string \<times> filterValue) list" where
  "confluenceSpacesFilter =
     [(''kind'', FilterString ''Resource''),
      (''spec.type'', FilterString RESOURCE_TYPE_CONFLUENCE_SPACES),
      (''metadata.annotations.'' @ ANNOTATION_OVO_CONFLUENCE_SPACES, CATALOG_FILTER_EXISTS)]"

text \<open>
  The callback of \<^verbatim>\<open>confluenceSpaces.items.map\<close>, for one entity: the annotation is
  read under two non-null assertions, so a missing annotation object or key makes
  \<^verbatim>\<open>annotation.split\<close> a TypeError. \<open>spaceLists\<close> is the iteration, pushing each
  entity's list onto the local array \<^verbatim>\<open>spaces\<close> (here \<open>pushed\<close>).
\<close>

definition spaceList :: "Entity \<Rightarrow> error + string list" where
  "spaceList entity =
     (case metadata_annotations entity of
        None \<Rightarrow> Inl (TypeError ''annotations'')
      | Some annotations \<Rightarrow>
          (case annotations ANNOTATION_OVO_CONFLUENCE_SPACES of
             None \<Rightarrow> Inl (TypeError ''split'')
           | Some annotation \<Rightarrow> Inr (map trim (split CHR '','' annotation))))"

fun spaceLists :: "Entity list \<Rightarrow> string list \<Rightarrow> error + string list" where
  "spaceLists [] pushed = Inr pushed"
| "spaceLists (entity # items) pushed =
     (case spaceList entity of
        Inl e \<Rightarrow> Inl e
      | Inr tokens \<Rightarrow> spaceLists items (pushed @ tokens))"

definition getSpaces :: "ConfluenceCollatorFactory \<Rightarrow> error + string list" where
  "getSpaces this =
     (case catalogClient this of
        Some client \<Rightarrow>
          (case getEntities client [confluenceSpacesFilter] of
             Inl e \<Rightarrow> Inl e
           | Inr items \<Rightarrow> spaceLists items [])
      | None \<Rightarrow> Inr (spaces this))"

subsection \<open>getDocumentsFromSpace and getDocumentsFromSpaces\<close>

text \<open>
  The \<^verbatim>\<open>while (next)\<close> loop has no bound: the function is partial, and \<open>None\<close> is a
  run that never returns. \<^verbatim>\<open>!data.results\<close> holds for an absent field (an array is
  truthy, also when empty); \<^verbatim>\<open>data._links.next\<close> is falsy when absent or empty.
\<close>

partial_function (option) getDocumentsFromSpace_loop ::
  "ConfluenceCollatorFactory \<Rightarrow> ConfluenceDocumentList fetch \<Rightarrow> string \<Rightarrow> string list
     \<Rightarrow> requests \<Rightarrow> ((error + string list) \<times> requests) option" where
  "getDocumentsFromSpace_loop this fetch requestUrl documentsList lg =
     (case get fetch requestUrl lg of
        (Inl e, lg') \<Rightarrow> Some (Inl e, lg')
      | (Inr data, lg') \<Rightarrow>
          (case results data of
             None \<Rightarrow> Some (Inr documentsList, lg')
           | Some rs \<Rightarrow>
               (case links_next data of
                  None \<Rightarrow> Some (Inr (documentsList @ map links_self rs), lg')
                | Some n \<Rightarrow>
                    if n \<noteq> []
                    then getDocumentsFromSpace_loop this fetch (wikiUrl this @ n)
                           (documentsList @ map links_self rs) lg'
                    else Some (Inr (documentsList @ map links_self rs), lg'))))"

definition getDocumentsFromSpace ::
  "ConfluenceCollatorFactory \<Rightarrow> ConfluenceDocumentList fetch \<Rightarrow> string
     \<Rightarrow> requests \<Rightarrow> ((error + string list) \<times> requests) option" where
  "getDocumentsFromSpace this fetch space lg =
     getDocumentsFromSpace_loop this fetch
       (wikiUrl this @ ''/rest/api/content?limit=1000&status=current&spaceKey='' @ space)
       [] lg"

fun getDocumentsFromSpaces_loop ::
  "ConfluenceCollatorFactory \<Rightarrow> ConfluenceDocumentList fetch \<Rightarrow> string list \<Rightarrow> string list
     \<Rightarrow> requests \<Rightarrow> ((error + string list) \<times> requests) option" where
  "getDocumentsFromSpaces_loop this fetch [] documentsList lg = Some (Inr documentsList, lg)"
| "getDocumentsFromSpaces_loop this fetch (space # rest) documentsList lg =
     (case getDocumentsFromSpace this fetch space lg of
        None \<Rightarrow> None
      | Some (Inl e, lg') \<Rightarrow> Some (Inl e, lg')
      | Some (Inr ds, lg') \<Rightarrow>
          getDocumentsFromSpaces_loop this fetch rest (documentsList @ ds) lg')"

definition getDocumentsFromSpaces ::
  "ConfluenceCollatorFactory \<Rightarrow> ConfluenceDocumentList fetch \<Rightarrow> string list
     \<Rightarrow> requests \<Rightarrow> ((error + string list) \<times> requests) option" where
  "getDocumentsFromSpaces this fetch spacesList lg =
     getDocumentsFromSpaces_loop this fetch spacesList [] lg"

subsection \<open>getDocumentInfo\<close>

definition ancestorRefs ::
  "ConfluenceCollatorFactory \<Rightarrow> ConfluenceDocument \<Rightarrow> IndexableAncestorRef list" where
  "ancestorRefs this data =
     foldl (\<lambda>acc ancestor.
              acc @ [\<lparr> ref_title = title ancestor,
                       ref_location = wikiUrl this @ links_webui ancestor \<rparr>])
           [\<lparr> ref_title = space_name data,
              ref_location = wikiUrl this @ space_links_webui data \<rparr>]
           (ancestors data)"

definition getDocumentInfo ::
  "ConfluenceCollatorFactory \<Rightarrow> ConfluenceDocument fetch \<Rightarrow> string \<Rightarrow> requests
     \<Rightarrow> (error + IndexableConfluenceDocument list) \<times> requests" where
  "getDocumentInfo this fetch documentUrl lg =
     (case get fetch (documentUrl @ ''?expand=body.storage,space,ancestors,version'') lg of
        (Inl e, lg') \<Rightarrow> (Inl e, lg')
      | (Inr data, lg') \<Rightarrow>
          if (case status data of None \<Rightarrow> True | Some s \<Rightarrow> s = [])
             \<or> status data \<noteq> Some ''current''
          then (Inr [], lg')
          else (Inr [\<lparr> doc_title = title data,
                       doc_text = stripHtml (body_storage_value data),
                       doc_location = wikiUrl this @ links_webui data,
                       spaceKey = space_key data,
                       spaceName = space_name data,
                       doc_ancestors = ancestorRefs this data,
                       lastModifiedBy = version_by_publicName data,
                       lastModified = version_when data,
                       lastModifiedFriendly = version_friendlyWhen data \<rparr>], lg'))"

subsection \<open>execute\<close>

text \<open>
  \<^verbatim>\<open>pLimit(concurrency)\<close> throws a TypeError unless the concurrency is a number from 1
  up. The limiter starts its tasks in the order they were queued and each task issues
  its request when it starts, so the requests of the transform phase are made in the
  order of the list; how many of them are pending at one moment is not part of this
  model.

  \<open>documentsInfo\<close> gives the outcome of each limited task. In the task,
  \<^verbatim>\<open>return this.getDocumentInfo(document)\<close> returns the promise without awaiting it,
  so the \<^verbatim>\<open>try\<close> around it catches nothing and the task settles as
  \<open>getDocumentInfo\<close> does. \<open>safePromises\<close> is the \<^verbatim>\<open>promise.catch\<close> that turns a
  rejection into \<^verbatim>\<open>[]\<close>, \<open>promiseAll\<close> is \<^verbatim>\<open>Promise.all\<close>, and \<^verbatim>\<open>flat()\<close> is
  \<open>concat\<close>.
\<close>

definition pLimit :: "int \<Rightarrow> error + int" where
  "pLimit concurrency =
     (if concurrency < 1 then Inl (TypeError ''Expected `concurrency` to be a number from 1 and up'')
      else Inr concurrency)"

fun documentsInfo ::
  "ConfluenceCollatorFactory \<Rightarrow> ConfluenceDocument fetch \<Rightarrow> string list \<Rightarrow> requests
     \<Rightarrow> (error + IndexableConfluenceDocument list) list \<times> requests" where
  "documentsInfo this fetch [] lg = ([], lg)"
| "documentsInfo this fetch (document # rest) lg =
     (case getDocumentInfo this fetch document lg of
        (outcome, lg') \<Rightarrow>
          (case documentsInfo this fetch rest lg' of
             (outcomes, lg'') \<Rightarrow> (outcome # outcomes, lg'')))"

definition safePromises :: "(error + 'a list) list \<Rightarrow> (error + 'a list) list" where
  "safePromises ps = map (\<lambda>promise. case promise of Inl e \<Rightarrow> Inr [] | Inr v \<Rightarrow> Inr v) ps"

fun promiseAll :: "(error + 'a) list \<Rightarrow> error + 'a list" where
  "promiseAll [] = Inr []"
| "promiseAll (p # ps) =
     (case p of
        Inl e \<Rightarrow> Inl e
      | Inr v \<Rightarrow> (case promiseAll ps of Inl e \<Rightarrow> Inl e | Inr vs \<Rightarrow> Inr (v # vs)))"

definition execute ::
  "ConfluenceCollatorFactory \<Rightarrow> ConfluenceDocumentList fetch \<Rightarrow> ConfluenceDocument fetch
     \<Rightarrow> requests \<Rightarrow> ((error + IndexableConfluenceDocument list) \<times> requests) option" where
  "execute this fetchList fetchDocument lg =
     (case getSpaces this of
        Inl e \<Rightarrow> Some (Inl e, lg)
      | Inr spacesList \<Rightarrow>
          (case getDocumentsFromSpaces this fetchList spacesList lg of
             None \<Rightarrow> None
           | Some (Inl e, lg1) \<Rightarrow> Some (Inl e, lg1)
           | Some (Inr documentsList, lg1) \<Rightarrow>
               (case pLimit (parallelismLimit this) of
                  Inl e \<Rightarrow> Some (Inl e, lg1)
                | Inr limit \<Rightarrow>
                    (case documentsInfo this fetchDocument documentsList lg1 of
                       (outcomes, lg2) \<Rightarrow>
                         (case promiseAll (safePromises outcomes) of
                            Inl e \<Rightarrow> Some (Inl e, lg2)
                          | Inr documents \<Rightarrow> Some (Inr (concat documents), lg2))))))"

section \<open>Vocabulary of the properties\<close>

text \<open>
  What the wiki serves, seen from the enumeration: \<open>servesPages this fetch url pages\<close>
  says that the request for \<open>url\<close> is answered by the first listing of \<open>pages\<close>, that the
  \<^verbatim>\<open>_links.next\<close> of each listing but the last leads to the following one, and that
  the last listing is the first one with no \<^verbatim>\<open>results\<close> or no (or an empty)
  \<^verbatim>\<open>_links.next\<close>. \<open>pageUrls\<close> are the URLs of those listings and \<open>selfLinks\<close> the
  self-links one listing carries.
\<close>

definition selfLinks :: "ConfluenceDocumentList \<Rightarrow> string list" where
  "selfLinks page = (case results page of None \<Rightarrow> [] | Some rs \<Rightarrow> map links_self rs)"

fun servesPages ::
  "ConfluenceCollatorFactory \<Rightarrow> ConfluenceDocumentList fetch \<Rightarrow> string
     \<Rightarrow> ConfluenceDocumentList list \<Rightarrow> bool" where
  "servesPages this fetch url [] = False"
| "servesPages this fetch url [page] =
     (fst (get fetch url []) = Inr page \<and>
      (results page = None \<or> links_next page = None \<or> links_next page = Some []))"
| "servesPages this fetch url (page # following # pages) =
     (fst (get fetch url []) = Inr page \<and> results page \<noteq> None \<and>
      (case links_next page of
         None \<Rightarrow> False
       | Some n \<Rightarrow> n \<noteq> [] \<and> servesPages this fetch (wikiUrl this @ n) (following # pages)))"

fun pageUrls ::
  "ConfluenceCollatorFactory \<Rightarrow> string \<Rightarrow> ConfluenceDocumentList list \<Rightarrow> string list" where
  "pageUrls this url [] = []"
| "pageUrls this url (page # pages) =
     url # (case links_next page of
              None \<Rightarrow> []
            | Some n \<Rightarrow> if pages = [] then [] else pageUrls this (wikiUrl this @ n) pages)"

text \<open>The annotation value of a catalog entity, when it has one.\<close>

definition annotationValue :: "Entity \<Rightarrow> string option" where
  "annotationValue entity =
     (case metadata_annotations entity of
        None \<Rightarrow> None
      | Some annotations \<Rightarrow> annotations ANNOTATION_OVO_CONFLUENCE_SPACES)"

text \<open>
  \<open>hasTag s\<close>: the pattern of \<open>stripHtml\<close> matches somewhere in \<open>s\<close>, that is, at some
  \<^verbatim>\<open><\<close> of \<open>s\<close> the attempt \<open>matchTag\<close> succeeds.
\<close>

fun hasTag :: "string \<Rightarrow> bool" where
  "hasTag [] = False"
| "hasTag (c # cs) = ((c = CHR ''<'' \<and> matchTag cs \<noteq> None) \<or> hasTag cs)"

section \<open>Example data\<close>

text \<open>
  A collator for the space \<open>ENG\<close> of a wiki at \<^verbatim>\<open>https://wiki\<close>. The space lists page
  1 on its first listing and page 2 on its second. Page 1 answers 404, page 2 is
  current, page 3 is in the trash.
\<close>

definition example_collator :: ConfluenceCollatorFactory where
  "example_collator =
     \<lparr> parallelismLimit = 1, wikiUrl = ''https://wiki'', spaces = [''ENG''],
       auth_username = ''bot'', auth_password = ''secret'', catalogClient = None \<rparr>"

definition okResponse :: "'a \<Rightarrow> 'a Response" where
  "okResponse body =
     \<lparr> res_ok = True, res_status = 200, res_statusText = ''OK'',
       res_text = Inr [], res_json = Inr body \<rparr>"

definition example_listing1 :: ConfluenceDocumentList where
  "example_listing1 =
     \<lparr> results = Some [\<lparr> title = ''A'', status = Some ''current'',
                          links_self = ''https://wiki/c/1'', links_webui = ''/a'' \<rparr>],
       links_next = Some ''/rest/api/content?start=1'' \<rparr>"

definition example_listing2 :: ConfluenceDocumentList where
  "example_listing2 =
     \<lparr> results = Some [\<lparr> title = ''B'', status = Some ''current'',
                          links_self = ''https://wiki/c/2'', links_webui = ''/b'' \<rparr>],
       links_next = None \<rparr>"

definition example_fetchList :: "ConfluenceDocumentList fetch" where
  "example_fetchList url =
     (if url = ''https://wiki/rest/api/content?limit=1000&status=current&spaceKey=ENG''
      then Inr (okResponse example_listing1)
      else if url = ''https://wiki/rest/api/content?start=1''
      then Inr (okResponse example_listing2)
      else Inl (FetchError ''unreachable''))"

text \<open>A wiki whose answer has no \<^verbatim>\<open>results\<close> field, though it names a next listing.\<close>

definition example_noResults :: ConfluenceDocumentList where
  "example_noResults = \<lparr> results = None, links_next = Some ''/rest/api/content?start=1'' \<rparr>"

definition example_fetchNoResults :: "ConfluenceDocumentList fetch" where
  "example_fetchNoResults url = Inr (okResponse example_noResults)"

definition example_page :: ConfluenceDocument where
  "example_page =
     \<lparr> title = ''B'', status = Some ''current'',
       links_self = ''https://wiki/c/2'', links_webui = ''/b'',
       body_storage_value = ''<p>Hello <b>World</b></p>'',
       version_by_publicName = ''Ann'', version_when = ''2023-01-02'',
       version_friendlyWhen = ''yesterday'',
       space_key = ''ENG'', space_name = ''Engineering'', space_links_webui = ''/spaces/ENG'',
       ancestors = [\<lparr> title = ''Home'', status = Some ''current'',
                      links_self = ''https://wiki/c/0'', links_webui = ''/home'' \<rparr>] \<rparr>"

definition example_trashed :: ConfluenceDocument where
  "example_trashed = example_page \<lparr> status := Some ''trashed'' \<rparr>"

definition example_notFound :: "ConfluenceDocument Response" where
  "example_notFound =
     \<lparr> res_ok = False, res_status = 404, res_statusText = ''Not Found'',
       res_text = Inr ''no such page'', res_json = Inl (FetchError ''invalid json'') \<rparr>"

definition example_fetchDocument :: "ConfluenceDocument fetch" where
  "example_fetchDocument url =
     (if url = ''https://wiki/c/1?expand=body.storage,space,ancestors,version''
      then Inr example_notFound
      else if url = ''https://wiki/c/2?expand=body.storage,space,ancestors,version''
      then Inr (okResponse example_page)
      else if url = ''https://wiki/c/3?expand=body.storage,space,ancestors,version''
      then Inr (okResponse example_trashed)
      else Inl (FetchError ''unreachable''))"

definition example_document :: IndexableConfluenceDocument where
  "example_document =
     \<lparr> doc_title = ''B'', doc_text = ''Hello World'', doc_location = ''https://wiki/b'',
       spaceKey = ''ENG'', spaceName = ''Engineering'',
       doc_ancestors =
         [\<lparr> ref_title = ''Engineering'', ref_location = ''https://wiki/spaces/ENG'' \<rparr>,
          \<lparr> ref_title = ''Home'', ref_location = ''https://wiki/home'' \<rparr>],
       lastModifiedBy = ''Ann'', lastModified = ''2023-01-02'',
       lastModifiedFriendly = ''yesterday'' \<rparr>"

text \<open>A response with status 200 whose body is a login page, not JSON.\<close>

definition example_loginPage :: "ConfluenceDocument Response" where
  "example_loginPage =
     \<lparr> res_ok = True, res_status = 200, res_statusText = ''OK'',
       res_text = Inr ''<html>Log in</html>'',
       res_json = Inl (FetchError ''invalid json response body'') \<rparr>"

definition example_fetchLogin :: "ConfluenceDocument fetch" where
  "example_fetchLogin url = Inr example_loginPage"

text \<open>A configuration, with the parallelism limit given as 0.\<close>

definition example_config :: Config where
  "example_config =
     \<lparr> getString = (\<lambda>key. if key = ''confluence.wikiUrl'' then Inr ''https://wiki''
                           else if key = ''confluence.auth.username'' then Inr ''bot''
                           else if key = ''confluence.auth.password'' then Inr ''secret''
                           else Inl (ConfigError key)),
       getStringArray = (\<lambda>key. if key = ''confluence.spaces'' then Inr [''ENG'']
                                else Inl (ConfigError key)) \<rparr>"

definition example_options :: Options where
  "example_options = \<lparr> opt_parallelismLimit = Some 0, opt_catalogClient = None \<rparr>"

text \<open>A catalog with two resources of type \<open>confluence-spaces\<close>.\<close>

definition example_resource1 :: Entity where
  "example_resource1 =
     \<lparr> metadata_annotations = Some [ANNOTATION_OVO_CONFLUENCE_SPACES \<mapsto> ''Eng, Sales''] \<rparr>"

definition example_resource2 :: Entity where
  "example_resource2 =
     \<lparr> metadata_annotations = Some [ANNOTATION_OVO_CONFLUENCE_SPACES \<mapsto> ''Marketing''] \<rparr>"

definition example_catalog :: CatalogApi where
  "example_catalog =
     \<lparr> getEntities = (\<lambda>filters. if filters = [confluenceSpacesFilter]
                                then Inr [example_resource1, example_resource2]
                                else Inr []) \<rparr>"

definition example_catalogCollator :: ConfluenceCollatorFactory where
  "example_catalogCollator = example_collator \<lparr> catalogClient := Some example_catalog \<rparr>"

section \<open>Properties of fromConfig\<close>

text \<open>
  Claim C10. When \<open>fromConfig\<close> is called with the parallelism limit set to 0, or with
  none, the collator it constructs has the default limit 15: the default replaces every
  falsy value, not only an absent one.
\<close>

theorem fromConfig_default_parallelismLimit:
  assumes "fromConfig config options = Inr this"
    and "opt_parallelismLimit options = None \<or> opt_parallelismLimit options = Some 0"
  shows "parallelismLimit this = 15"
  using assms by (auto simp: fromConfig_def Let_def split: sum.splits)

theorem fromConfig_default_parallelismLimit_witness:
  "fromConfig example_config example_options = Inr (example_collator \<lparr> parallelismLimit := 15 \<rparr>)
   \<and> opt_parallelismLimit example_options = Some 0
   \<and> parallelismLimit (example_collator \<lparr> parallelismLimit := 15 \<rparr>) = 15"
proof -
  have h1: "fromConfig example_config example_options
              = Inr (example_collator \<lparr> parallelismLimit := 15 \<rparr>)"
    by (simp add: fromConfig_def example_config_def example_options_def example_collator_def)
  have h2: "opt_parallelismLimit example_options = None
            \<or> opt_parallelismLimit example_options = Some 0"
    by (simp add: example_options_def)
  from fromConfig_default_parallelismLimit[OF h1 h2] h1 h2 show ?thesis
    by (simp add: example_options_def)
qed

section \<open>Properties of stripHtml\<close>

lemma matchTag_None_iff:
  "matchTag cs = None \<longleftrightarrow> (cs = [] \<or> hd cs = CHR ''>'' \<or> CHR ''>'' \<notin> set cs)"
  by (cases cs) (auto simp: matchTag_def Let_def dropWhile_eq_Nil_conv takeWhile_eq_Nil_iff)

text \<open>Nothing is added: every code unit of the result is one of the input.\<close>

lemma set_stripHtml: "set (stripHtml s) \<subseteq> set s"
proof (induction s rule: stripHtml.induct)
  case 1
  show ?case by simp
next
  case (2 c cs)
  show ?case
  proof (cases "c = CHR ''<''")
    case False
    with 2 show ?thesis by auto
  next
    case True
    show ?thesis
    proof (cases "matchTag cs")
      case None
      with True 2 show ?thesis by auto
    next
      case (Some rest)
      then have "rest = tl (dropWhile (\<lambda>c. c \<noteq> CHR ''>'') cs)"
        and "dropWhile (\<lambda>c. c \<noteq> CHR ''>'') cs \<noteq> []"
        by (auto simp: matchTag_def Let_def split: if_splits)
      then have "set rest \<subseteq> set cs"
        by (metis list.set_sel(2) set_dropWhileD subsetI)
      with Some True 2 show ?thesis by auto
    qed
  qed
qed

text \<open>
  A \<^verbatim>\<open><\<close> that is kept opens no tag in the result either: what follows it is empty,
  starts with \<^verbatim>\<open>>\<close> or has no \<^verbatim>\<open>>\<close> at all, and stripping keeps each of the three.
\<close>

lemma matchTag_stripHtml_None: "matchTag cs = None \<Longrightarrow> matchTag (stripHtml cs) = None"
  unfolding matchTag_None_iff
  using set_stripHtml[of cs] by (cases cs) auto

lemma hasTag_stripHtml: "\<not> hasTag (stripHtml s)"
proof (induction s rule: stripHtml.induct)
  case 1
  show ?case by simp
next
  case (2 c cs)
  show ?case
  proof (cases "c = CHR ''<''")
    case False
    with 2 show ?thesis by simp
  next
    case True
    show ?thesis
    proof (cases "matchTag cs")
      case None
      with True 2 matchTag_stripHtml_None[OF None] show ?thesis by simp
    next
      case (Some rest)
      with True 2 show ?thesis by simp
    qed
  qed
qed

lemma stripHtml_no_tag: "\<not> hasTag s \<Longrightarrow> stripHtml s = s"
  by (induction s rule: stripHtml.induct) (auto split: option.splits)

lemma hasTag_append: "hasTag s \<Longrightarrow> hasTag (pre @ s)"
  by (induction pre) auto

lemma matchTag_tag:
  assumes "inner \<noteq> []" and "CHR ''>'' \<notin> set inner"
  shows "matchTag (inner @ CHR ''>'' # post) = Some post"
proof -
  from assms(2)
  have t: "takeWhile (\<lambda>c. c \<noteq> CHR ''>'') (inner @ CHR ''>'' # post) = inner"
    by (subst takeWhile_append2) auto
  from assms(2)
  have d: "dropWhile (\<lambda>c. c \<noteq> CHR ''>'') (inner @ CHR ''>'' # post) = CHR ''>'' # post"
    by (subst dropWhile_append2) auto
  from assms(1) show ?thesis by (simp add: matchTag_def t d)
qed

text \<open>
  \<open>hasTag\<close> is the pattern \<^verbatim>\<open><[^>]+>\<close>: it holds of every string with a \<^verbatim>\<open><\<close>, then
  one or more code units other than \<^verbatim>\<open>>\<close>, then a \<^verbatim>\<open>>\<close>.
\<close>

lemma hasTag_tag:
  "inner \<noteq> [] \<Longrightarrow> CHR ''>'' \<notin> set inner \<Longrightarrow>
   hasTag (pre @ CHR ''<'' # inner @ CHR ''>'' # post)"
  by (rule hasTag_append) (simp add: matchTag_tag)

lemma stripHtml_tagless:
  "inner \<noteq> [] \<Longrightarrow> CHR ''>'' \<notin> set inner \<Longrightarrow>
   stripHtml s \<noteq> pre @ CHR ''<'' # inner @ CHR ''>'' # post"
  using hasTag_stripHtml[of s] hasTag_tag[of inner pre post] by auto

lemma stripHtml_remnants:
  "stripHtml ''<>'' = ''<>''" "stripHtml ''a < b'' = ''a < b''" "stripHtml ''a > b'' = ''a > b''"
  by (simp_all add: matchTag_def)

text \<open>
  Claim C9. \<open>stripHtml\<close> is idempotent: stripping the result of a stripping changes
  nothing, for every input string. (One pass leaves no match of the pattern, while a
  bare \<^verbatim>\<open><>\<close> or an unpaired angle bracket stays, as \<open>stripHtml_remnants\<close> shows.)
\<close>

theorem stripHtml_idempotent: "stripHtml (stripHtml s) = stripHtml s"
  by (rule stripHtml_no_tag) (rule hasTag_stripHtml)

section \<open>Properties of get\<close>

lemma get_snd: "snd (get fetch url lg) = lg @ [url]"
  by (simp add: get_def Let_def split: sum.splits)

lemma get_fst: "fst (get fetch url lg) = fst (get fetch url [])"
  by (simp add: get_def Let_def split: sum.splits)

lemma get_pair: "get fetch url lg = (fst (get fetch url []), lg @ [url])"
  using get_snd[of fetch url lg] get_fst[of fetch url lg] by (metis prod.collapse)

lemma get_decoded:
  "fetch url = Inr res \<Longrightarrow> res_ok res \<Longrightarrow> res_json res = Inr data \<Longrightarrow>
   get fetch url lg = (Inr data, lg @ [url])"
  by (simp add: get_def)

text \<open>
  Claim C8, as stated: \<open>get\<close> returns the decoded JSON body exactly when the response
  is successful, and raises if and only if the response is not ok. That fails on a
  response that is ok and whose body is not JSON: \<^verbatim>\<open>res.json()\<close> rejects and \<open>get\<close>
  raises, although the response is ok.
\<close>

theorem get_raises_on_ok_response_counterexample:
  "example_fetchLogin ''https://wiki/c/1'' = Inr example_loginPage
   \<and> res_ok example_loginPage
   \<and> fst (get example_fetchLogin ''https://wiki/c/1'' [])
       = Inl (FetchError ''invalid json response body'')"
  by (simp add: get_def example_fetchLogin_def example_loginPage_def)

text \<open>
  Claim C8, amended. For every response: \<open>get\<close> returns a body exactly when the
  response is ok and its body decodes to that JSON value; it raises if and only if the
  response is not ok or its body does not decode; and on a response that is not ok and
  whose body text can be read, the error carries the HTTP status code and status text.
\<close>

theorem get_outcome_by_response:
  assumes "fetch requestUrl = Inr res"
  shows "(fst (get fetch requestUrl lg) = Inr body \<longleftrightarrow> res_ok res \<and> res_json res = Inr body)
       \<and> (isl (fst (get fetch requestUrl lg)) \<longleftrightarrow> \<not> res_ok res \<or> isl (res_json res))
       \<and> (\<not> res_ok res \<and> res_text res = Inr content \<longrightarrow>
            fst (get fetch requestUrl lg)
              = Inl (RequestFailed (res_status res) (res_statusText res)))"
  using assms by (auto simp: get_def Let_def split: sum.splits)

theorem get_outcome_by_response_witness:
  "example_fetchDocument ''https://wiki/c/1?expand=body.storage,space,ancestors,version''
     = Inr example_notFound
   \<and> \<not> res_ok example_notFound \<and> res_text example_notFound = Inr ''no such page''
   \<and> fst (get example_fetchDocument
             ''https://wiki/c/1?expand=body.storage,space,ancestors,version'' [])
       = Inl (RequestFailed 404 ''Not Found'')
   \<and> example_fetchDocument ''https://wiki/c/2?expand=body.storage,space,ancestors,version''
     = Inr (okResponse example_page)
   \<and> res_ok (okResponse example_page) \<and> res_json (okResponse example_page) = Inr example_page
   \<and> fst (get example_fetchDocument
             ''https://wiki/c/2?expand=body.storage,space,ancestors,version'' [])
       = Inr example_page"
proof -
  have h1: "example_fetchDocument ''https://wiki/c/1?expand=body.storage,space,ancestors,version''
     = Inr example_notFound" by (simp add: example_fetchDocument_def)
  have h2: "\<not> res_ok example_notFound \<and> res_text example_notFound = Inr ''no such page''"
    by (simp add: example_notFound_def)
  have h3: "example_fetchDocument ''https://wiki/c/2?expand=body.storage,space,ancestors,version''
     = Inr (okResponse example_page)" by (simp add: example_fetchDocument_def)
  have h4: "res_ok (okResponse example_page)
            \<and> res_json (okResponse example_page) = Inr example_page"
    by (simp add: okResponse_def)
  from get_outcome_by_response[where fetch=example_fetchDocument and lg="[]"
         and content="''no such page''", OF h1] h2
  have a: "fst (get example_fetchDocument
             ''https://wiki/c/1?expand=body.storage,space,ancestors,version'' [])
       = Inl (RequestFailed 404 ''Not Found'')" by (simp add: example_notFound_def)
  from get_outcome_by_response[where fetch=example_fetchDocument and lg="[]"
         and body=example_page, OF h3] h4
  have b: "fst (get example_fetchDocument
             ''https://wiki/c/2?expand=body.storage,space,ancestors,version'' [])
       = Inr example_page" by simp
  from h1 h2 h3 h4 a b show ?thesis by blast
qed

section \<open>Properties of getDocumentInfo\<close>

lemma getDocumentInfo_snd:
  "snd (getDocumentInfo this fetch documentUrl lg) =
     lg @ [documentUrl @ ''?expand=body.storage,space,ancestors,version'']"
  unfolding getDocumentInfo_def
  by (subst get_pair) (simp split: sum.splits)

lemma getDocumentInfo_fst:
  "fst (getDocumentInfo this fetch documentUrl lg) = fst (getDocumentInfo this fetch documentUrl [])"
  unfolding getDocumentInfo_def
  by (subst get_pair, subst (2) get_pair) (simp split: sum.splits)

text \<open>
  Claim C2. For every fetched page whose status is not exactly \<^verbatim>\<open>"current"\<close> (a
  missing status included), \<open>getDocumentInfo\<close> returns the empty list of documents,
  as a result and not as an error.
\<close>

theorem getDocumentInfo_not_current:
  assumes "fetch (documentUrl @ ''?expand=body.storage,space,ancestors,version'') = Inr res"
    and "res_ok res" and "res_json res = Inr data"
    and "status data \<noteq> Some ''current''"
  shows "fst (getDocumentInfo this fetch documentUrl lg) = Inr []"
  using assms(4)
  by (simp add: getDocumentInfo_def get_decoded[where fetch=fetch and res=res, OF assms(1-3)])

theorem getDocumentInfo_not_current_witness:
  "example_fetchDocument (''https://wiki/c/3'' @ ''?expand=body.storage,space,ancestors,version'')
     = Inr (okResponse example_trashed)
   \<and> res_ok (okResponse example_trashed)
   \<and> res_json (okResponse example_trashed) = Inr example_trashed
   \<and> status example_trashed \<noteq> Some ''current''
   \<and> fst (getDocumentInfo example_collator example_fetchDocument ''https://wiki/c/3'' []) = Inr []"
proof -
  have h1: "example_fetchDocument
              (''https://wiki/c/3'' @ ''?expand=body.storage,space,ancestors,version'')
            = Inr (okResponse example_trashed)" by (simp add: example_fetchDocument_def)
  have h2: "res_ok (okResponse example_trashed)" by (simp add: okResponse_def)
  have h3: "res_json (okResponse example_trashed) = Inr example_trashed"
    by (simp add: okResponse_def)
  have h4: "status example_trashed \<noteq> Some ''current''" by (simp add: example_trashed_def)
  from getDocumentInfo_not_current[where fetch=example_fetchDocument
         and documentUrl="''https://wiki/c/3''" and this=example_collator and lg="[]",
         OF h1 h2 h3 h4] h1 h2 h3 h4
  show ?thesis by blast
qed

lemma foldl_snoc_map: "foldl (\<lambda>acc x. acc @ [f x]) init xs = init @ map f xs"
  by (induction xs arbitrary: init) simp_all

lemma ancestorRefs_eq:
  "ancestorRefs this data =
     \<lparr> ref_title = space_name data, ref_location = wikiUrl this @ space_links_webui data \<rparr>
     # map (\<lambda>ancestor. \<lparr> ref_title = title ancestor,
                          ref_location = wikiUrl this @ links_webui ancestor \<rparr>) (ancestors data)"
  by (simp add: ancestorRefs_def foldl_snoc_map)

text \<open>
  Claim C3. For every page that is fetched with status \<^verbatim>\<open>"current"\<close>,
  \<open>getDocumentInfo\<close> emits one document, and its ancestor list is the space (title the
  space name, location the wiki URL followed by the space's web link) followed by the
  raw ancestors in the order given, each with its title and the wiki URL followed by
  its web link. The space comes first whatever the number of raw ancestors, none
  included.
\<close>

theorem getDocumentInfo_ancestors:
  assumes "fetch (documentUrl @ ''?expand=body.storage,space,ancestors,version'') = Inr res"
    and "res_ok res" and "res_json res = Inr data"
    and "status data = Some ''current''"
  shows "\<exists>doc. fst (getDocumentInfo this fetch documentUrl lg) = Inr [doc]
           \<and> doc_ancestors doc =
               \<lparr> ref_title = space_name data,
                 ref_location = wikiUrl this @ space_links_webui data \<rparr>
               # map (\<lambda>ancestor. \<lparr> ref_title = title ancestor,
                                    ref_location = wikiUrl this @ links_webui ancestor \<rparr>)
                     (ancestors data)"
  using assms(4)
  by (simp add: getDocumentInfo_def ancestorRefs_eq
        get_decoded[where fetch=fetch and res=res, OF assms(1-3)])

theorem getDocumentInfo_ancestors_witness:
  "example_fetchDocument (''https://wiki/c/2'' @ ''?expand=body.storage,space,ancestors,version'')
     = Inr (okResponse example_page)
   \<and> res_ok (okResponse example_page)
   \<and> res_json (okResponse example_page) = Inr example_page
   \<and> status example_page = Some ''current''
   \<and> (\<exists>doc. fst (getDocumentInfo example_collator example_fetchDocument ''https://wiki/c/2'' [])
                = Inr [doc]
            \<and> doc_ancestors doc =
                [\<lparr> ref_title = ''Engineering'', ref_location = ''https://wiki/spaces/ENG'' \<rparr>,
                 \<lparr> ref_title = ''Home'', ref_location = ''https://wiki/home'' \<rparr>])"
proof -
  have h1: "example_fetchDocument
              (''https://wiki/c/2'' @ ''?expand=body.storage,space,ancestors,version'')
            = Inr (okResponse example_page)" by (simp add: example_fetchDocument_def)
  have h2: "res_ok (okResponse example_page)" by (simp add: okResponse_def)
  have h3: "res_json (okResponse example_page) = Inr example_page" by (simp add: okResponse_def)
  have h4: "status example_page = Some ''current''" by (simp add: example_page_def)
  from getDocumentInfo_ancestors[where fetch=example_fetchDocument
         and documentUrl="''https://wiki/c/2''" and this=example_collator and lg="[]",
         OF h1 h2 h3 h4]
  obtain doc where
    "fst (getDocumentInfo example_collator example_fetchDocument ''https://wiki/c/2'' []) = Inr [doc]"
    "doc_ancestors doc =
       \<lparr> ref_title = space_name example_page,
         ref_location = wikiUrl example_collator @ space_links_webui example_page \<rparr>
       # map (\<lambda>ancestor. \<lparr> ref_title = title ancestor,
                            ref_location = wikiUrl example_collator @ links_webui ancestor \<rparr>)
             (ancestors example_page)" by blast
  then have "fst (getDocumentInfo example_collator example_fetchDocument ''https://wiki/c/2'' [])
                = Inr [doc]
            \<and> doc_ancestors doc =
                [\<lparr> ref_title = ''Engineering'', ref_location = ''https://wiki/spaces/ENG'' \<rparr>,
                 \<lparr> ref_title = ''Home'', ref_location = ''https://wiki/home'' \<rparr>]"
    by (simp add: example_page_def example_collator_def)
  with h1 h2 h3 h4 show ?thesis by blast
qed

section \<open>Properties of the enumeration\<close>

lemma loop_servesPages:
  "servesPages this fetch url pages \<Longrightarrow>
   getDocumentsFromSpace_loop this fetch url acc lg =
     Some (Inr (acc @ concat (map selfLinks pages)), lg @ pageUrls this url pages)"
proof (induction this fetch url pages arbitrary: acc lg rule: servesPages.induct)
  case (1 this fetch url)
  then show ?case by simp
next
  case (2 this fetch url page)
  then have g: "get fetch url lg = (Inr page, lg @ [url])"
    using get_pair[of fetch url lg] by simp
  from 2 show ?case
    by (subst getDocumentsFromSpace_loop.simps)
       (auto simp: g selfLinks_def split: option.splits)
next
  case (3 this fetch url page following pages)
  then have g: "get fetch url lg = (Inr page, lg @ [url])"
    using get_pair[of fetch url lg] by simp
  from "3.prems" obtain rs n where r: "results page = Some rs"
    and n: "links_next page = Some n" "n \<noteq> []"
    and s: "servesPages this fetch (wikiUrl this @ n) (following # pages)"
    by (auto split: option.splits)
  from r have sl: "selfLinks page = map links_self rs" by (simp add: selfLinks_def)
  from "3.IH"[OF n(1) s, of "acc @ map links_self rs" "lg @ [url]"]
  show ?case
    by (subst getDocumentsFromSpace_loop.simps)
       (simp add: g r n sl)
qed

lemma length_pageUrls:
  "servesPages this fetch url pages \<Longrightarrow> length (pageUrls this url pages) = length pages"
  by (induction this fetch url pages rule: servesPages.induct) (auto split: option.splits)

text \<open>
  Claim C4. For every space whose listings are \<open>pages\<close> (each but the last leading to
  the following one by its \<^verbatim>\<open>_links.next\<close>), the enumeration returns, and returns the
  self-links of all listings concatenated in the order of the listings; the requests it
  makes are exactly the URLs of the listings, one request per listing. A listing with
  no \<^verbatim>\<open>results\<close> ends the loop without an error, and with a first listing that has
  no \<^verbatim>\<open>next\<close> link the first request is the only one (\<open>pages\<close> is then that one
  listing).
\<close>

theorem getDocumentsFromSpace_follows_next:
  assumes "servesPages this fetch
             (wikiUrl this @ ''/rest/api/content?limit=1000&status=current&spaceKey='' @ space)
             pages"
  shows "getDocumentsFromSpace this fetch space lg =
           Some (Inr (concat (map selfLinks pages)),
                 lg @ pageUrls this
                        (wikiUrl this @ ''/rest/api/content?limit=1000&status=current&spaceKey=''
                           @ space)
                        pages)
         \<and> length (pageUrls this
                      (wikiUrl this @ ''/rest/api/content?limit=1000&status=current&spaceKey=''
                         @ space)
                      pages) = length pages"
  using loop_servesPages[OF assms, of "[]" lg] length_pageUrls[OF assms]
  by (simp add: getDocumentsFromSpace_def)

theorem getDocumentsFromSpace_follows_next_witness:
  "servesPages example_collator example_fetchList
     (wikiUrl example_collator @ ''/rest/api/content?limit=1000&status=current&spaceKey='' @ ''ENG'')
     [example_listing1, example_listing2]
   \<and> getDocumentsFromSpace example_collator example_fetchList ''ENG'' [] =
       Some (Inr [''https://wiki/c/1'', ''https://wiki/c/2''],
             [''https://wiki/rest/api/content?limit=1000&status=current&spaceKey=ENG'',
              ''https://wiki/rest/api/content?start=1''])
   \<and> servesPages example_collator example_fetchNoResults
     (wikiUrl example_collator @ ''/rest/api/content?limit=1000&status=current&spaceKey='' @ ''ENG'')
     [example_noResults]
   \<and> getDocumentsFromSpace example_collator example_fetchNoResults ''ENG'' [] =
       Some (Inr [],
             [''https://wiki/rest/api/content?limit=1000&status=current&spaceKey=ENG''])"
proof -
  have h: "servesPages example_collator example_fetchList
     (wikiUrl example_collator @ ''/rest/api/content?limit=1000&status=current&spaceKey='' @ ''ENG'')
     [example_listing1, example_listing2]"
    by (simp add: example_collator_def example_fetchList_def get_def okResponse_def
          example_listing1_def example_listing2_def)
  have k: "servesPages example_collator example_fetchNoResults
     (wikiUrl example_collator @ ''/rest/api/content?limit=1000&status=current&spaceKey='' @ ''ENG'')
     [example_noResults]"
    by (simp add: example_fetchNoResults_def get_def okResponse_def example_noResults_def)
  from getDocumentsFromSpace_follows_next[OF h, of "[]"]
  have a: "getDocumentsFromSpace example_collator example_fetchList ''ENG'' [] =
       Some (Inr [''https://wiki/c/1'', ''https://wiki/c/2''],
             [''https://wiki/rest/api/content?limit=1000&status=current&spaceKey=ENG'',
              ''https://wiki/rest/api/content?start=1''])"
    by (simp add: example_collator_def selfLinks_def example_listing1_def example_listing2_def)
  from getDocumentsFromSpace_follows_next[OF k, of "[]"]
  have b: "getDocumentsFromSpace example_collator example_fetchNoResults ''ENG'' [] =
       Some (Inr [],
             [''https://wiki/rest/api/content?limit=1000&status=current&spaceKey=ENG''])"
    by (simp add: example_collator_def selfLinks_def example_noResults_def)
  from h k a b show ?thesis by blast
qed

section \<open>Properties of getSpaces\<close>

lemma spaceLists_eq:
  "map annotationValue items = map Some annotationValues \<Longrightarrow>
   spaceLists items pushed =
     Inr (pushed @ concat (map (\<lambda>annotation. map trim (split CHR '','' annotation))
                            annotationValues))"
proof (induction items arbitrary: pushed annotationValues)
  case Nil
  then show ?case by simp
next
  case (Cons entity items)
  then obtain a rest where av: "annotationValues = a # rest" "annotationValue entity = Some a"
    "map annotationValue items = map Some rest" by (cases annotationValues) auto
  from av(2) have "spaceList entity = Inr (map trim (split CHR '','' a))"
    by (auto simp: annotationValue_def spaceList_def split: option.splits)
  with Cons.IH[OF av(3)] av(1) show ?case by simp
qed

lemma example_trim:
  "trim ''Eng'' = ''Eng''" "trim '' Sales'' = ''Sales''" "trim ''Marketing'' = ''Marketing''"
  by (simp_all add: trim_def isWhiteSpace_def)

text \<open>
  Claim C6. With a catalog client configured, whose query returns the entities
  \<open>items\<close> with the annotation values \<open>annotationValues\<close>, \<open>getSpaces\<close> returns the
  tokens of each value, split at the commas and each trimmed, of all entities in
  order, one list after the other and with nothing removed. The values
  \<^verbatim>\<open>"Eng, Sales"\<close> and \<^verbatim>\<open>"Marketing"\<close> give \<^verbatim>\<open>["Eng", "Sales", "Marketing"]\<close>.
\<close>

theorem getSpaces_from_catalog:
  assumes "catalogClient this = Some client"
    and "getEntities client [confluenceSpacesFilter] = Inr items"
    and "map annotationValue items = map Some annotationValues"
  shows "getSpaces this =
           Inr (concat (map (\<lambda>annotation. map trim (split CHR '','' annotation))
                         annotationValues))"
  using assms(1,2) spaceLists_eq[OF assms(3), of "[]"] by (simp add: getSpaces_def)

theorem getSpaces_from_catalog_witness:
  "catalogClient example_catalogCollator = Some example_catalog
   \<and> getEntities example_catalog [confluenceSpacesFilter]
       = Inr [example_resource1, example_resource2]
   \<and> map annotationValue [example_resource1, example_resource2]
       = map Some [''Eng, Sales'', ''Marketing'']
   \<and> getSpaces example_catalogCollator = Inr [''Eng'', ''Sales'', ''Marketing'']"
proof -
  have h1: "catalogClient example_catalogCollator = Some example_catalog"
    by (simp add: example_catalogCollator_def)
  have h2: "getEntities example_catalog [confluenceSpacesFilter]
              = Inr [example_resource1, example_resource2]"
    by (simp add: example_catalog_def)
  have h3: "map annotationValue [example_resource1, example_resource2]
              = map Some [''Eng, Sales'', ''Marketing'']"
    by (simp add: annotationValue_def example_resource1_def example_resource2_def)
  from getSpaces_from_catalog[OF h1 h2 h3]
  have "getSpaces example_catalogCollator = Inr [''Eng'', ''Sales'', ''Marketing'']"
    by (simp add: example_trim)
  with h1 h2 h3 show ?thesis by blast
qed

section \<open>Properties of execute\<close>

text \<open>
  The outcome of each task is that of \<open>getDocumentInfo\<close> on its page, whatever was
  requested before; the requests are made in the order of the list.
\<close>

lemma documentsInfo_eq:
  "documentsInfo this fetch ds lg =
     (map (\<lambda>d. fst (getDocumentInfo this fetch d [])) ds,
      lg @ map (\<lambda>d. d @ ''?expand=body.storage,space,ancestors,version'') ds)"
proof (induction ds arbitrary: lg)
  case Nil
  show ?case by simp
next
  case (Cons d ds)
  have "getDocumentInfo this fetch d lg =
          (fst (getDocumentInfo this fetch d []),
           lg @ [d @ ''?expand=body.storage,space,ancestors,version''])"
    using getDocumentInfo_snd[of this fetch d lg] getDocumentInfo_fst[of this fetch d lg]
    by (metis prod.collapse)
  then show ?case by (simp add: Cons.IH)
qed

text \<open>After the \<^verbatim>\<open>catch\<close> no promise is rejected, so \<^verbatim>\<open>Promise.all\<close> is fulfilled.\<close>

lemma promiseAll_safePromises:
  "promiseAll (safePromises outcomes) =
     Inr (map (\<lambda>outcome. case outcome of Inl e \<Rightarrow> [] | Inr v \<Rightarrow> v) outcomes)"
  by (induction outcomes) (auto simp: safePromises_def split: sum.splits)

lemma execute_transform:
  assumes "1 \<le> parallelismLimit this"
    and "getSpaces this = Inr spacesList"
    and "getDocumentsFromSpaces this fetchList spacesList lg = Some (Inr documentsList, lg1)"
  shows "execute this fetchList fetchDocument lg =
           Some (Inr (concat (map (\<lambda>document.
                        case fst (getDocumentInfo this fetchDocument document []) of
                          Inl e \<Rightarrow> [] | Inr docs \<Rightarrow> docs) documentsList)),
                 lg1 @ map (\<lambda>d. d @ ''?expand=body.storage,space,ancestors,version'')
                         documentsList)"
  using assms
  by (simp add: execute_def pLimit_def documentsInfo_eq promiseAll_safePromises comp_def)

lemma example_enumeration:
  "getDocumentsFromSpaces example_collator example_fetchList [''ENG''] [] =
     Some (Inr [''https://wiki/c/1'', ''https://wiki/c/2''],
           [''https://wiki/rest/api/content?limit=1000&status=current&spaceKey=ENG'',
            ''https://wiki/rest/api/content?start=1''])"
proof -
  have h: "servesPages example_collator example_fetchList
     (wikiUrl example_collator @ ''/rest/api/content?limit=1000&status=current&spaceKey='' @ ''ENG'')
     [example_listing1, example_listing2]"
    by (simp add: example_collator_def example_fetchList_def get_def okResponse_def
          example_listing1_def example_listing2_def)
  from loop_servesPages[OF h, of "[]" "[]"] show ?thesis
    by (simp add: getDocumentsFromSpaces_def getDocumentsFromSpace_def example_collator_def
          selfLinks_def example_listing1_def example_listing2_def)
qed

lemma example_failure:
  "fst (getDocumentInfo example_collator example_fetchDocument ''https://wiki/c/1'' [])
     = Inl (RequestFailed 404 ''Not Found'')"
  by (simp add: getDocumentInfo_def get_def example_fetchDocument_def example_notFound_def)

lemma example_success:
  "fst (getDocumentInfo example_collator example_fetchDocument ''https://wiki/c/2'' [])
     = Inr [example_document]"
  by (simp add: getDocumentInfo_def get_def example_fetchDocument_def okResponse_def
        example_page_def example_document_def example_collator_def ancestorRefs_def matchTag_def)

lemma example_run:
  "execute example_collator example_fetchList example_fetchDocument [] =
     Some (Inr [example_document],
           [''https://wiki/rest/api/content?limit=1000&status=current&spaceKey=ENG'',
            ''https://wiki/rest/api/content?start=1'',
            ''https://wiki/c/1?expand=body.storage,space,ancestors,version'',
            ''https://wiki/c/2?expand=body.storage,space,ancestors,version''])"
proof -
  have h1: "1 \<le> parallelismLimit example_collator" by (simp add: example_collator_def)
  have h2: "getSpaces example_collator = Inr [''ENG'']"
    by (simp add: getSpaces_def example_collator_def)
  from execute_transform[OF h1 h2 example_enumeration, of example_fetchDocument]
  show ?thesis by (simp add: example_failure example_success)
qed

text \<open>
  Claim C1. For every batch of page references (the list the enumeration returned,
  under a limiter that could be created), the run does not abort and its output is, page
  by page in the order of the batch, the documents of the pages whose transform
  succeeds: a page whose transform fails, as when its fetch throws, contributes no
  document, whole or partial. With one failing and one succeeding page the output is
  exactly the document of the succeeding one.
\<close>

theorem execute_isolates_failures:
  assumes "1 \<le> parallelismLimit this"
    and "getSpaces this = Inr spacesList"
    and "getDocumentsFromSpaces this fetchList spacesList lg = Some (Inr documentsList, lg1)"
  shows "map_option fst (execute this fetchList fetchDocument lg) =
           Some (Inr (concat (map (\<lambda>document.
                        case fst (getDocumentInfo this fetchDocument document []) of
                          Inl e \<Rightarrow> [] | Inr docs \<Rightarrow> docs) documentsList)))"
  by (simp add: execute_transform[OF assms])

theorem execute_isolates_failures_witness:
  "1 \<le> parallelismLimit example_collator
   \<and> getSpaces example_collator = Inr [''ENG'']
   \<and> getDocumentsFromSpaces example_collator example_fetchList [''ENG''] [] =
       Some (Inr [''https://wiki/c/1'', ''https://wiki/c/2''],
           [''https://wiki/rest/api/content?limit=1000&status=current&spaceKey=ENG'',
            ''https://wiki/rest/api/content?start=1''])
   \<and> fst (getDocumentInfo example_collator example_fetchDocument ''https://wiki/c/1'' [])
       = Inl (RequestFailed 404 ''Not Found'')
   \<and> fst (getDocumentInfo example_collator example_fetchDocument ''https://wiki/c/2'' [])
       = Inr [example_document]
   \<and> map_option fst (execute example_collator example_fetchList example_fetchDocument [])
       = Some (Inr [example_document])"
proof -
  have h1: "1 \<le> parallelismLimit example_collator" by (simp add: example_collator_def)
  have h2: "getSpaces example_collator = Inr [''ENG'']"
    by (simp add: getSpaces_def example_collator_def)
  from execute_isolates_failures[OF h1 h2 example_enumeration, of example_fetchDocument]
  have "map_option fst (execute example_collator example_fetchList example_fetchDocument [])
       = Some (Inr [example_document])"
    by (simp add: example_failure example_success)
  with h1 h2 example_enumeration example_failure example_success show ?thesis by blast
qed

lemma getDocumentInfo_text:
  "fst (getDocumentInfo this fetch documentUrl lg) = Inr docs \<Longrightarrow> doc \<in> set docs \<Longrightarrow>
   \<exists>s. doc_text doc = stripHtml s"
  by (auto simp: getDocumentInfo_def split: prod.splits sum.splits if_splits)

lemma execute_text:
  assumes "execute this fetchList fetchDocument lg = Some (Inr documents, lg')"
    and "doc \<in> set documents"
  shows "\<exists>s. doc_text doc = stripHtml s"
proof -
  from assms(1) obtain documentsList where
    "documents = concat (map (\<lambda>document.
                        case fst (getDocumentInfo this fetchDocument document []) of
                          Inl e \<Rightarrow> [] | Inr docs \<Rightarrow> docs) documentsList)"
    by (auto simp: execute_def documentsInfo_eq promiseAll_safePromises comp_def
             split: sum.splits option.splits prod.splits)
  with assms(2) obtain document where
    "doc \<in> set (case fst (getDocumentInfo this fetchDocument document []) of
                    Inl e \<Rightarrow> [] | Inr docs \<Rightarrow> docs)"
    by auto
  then show ?thesis
    by (cases "fst (getDocumentInfo this fetchDocument document [])")
       (auto dest: getDocumentInfo_text)
qed

text \<open>
  Claim C5. For every document a run emits, the text of the document has no substring
  that matches the tag pattern: nowhere in it is there a \<^verbatim>\<open><\<close>, then one or more code
  units other than \<^verbatim>\<open>>\<close>, then a \<^verbatim>\<open>>\<close>.
\<close>

theorem execute_text_has_no_tag:
  assumes "execute this fetchList fetchDocument lg = Some (Inr documents, lg')"
    and "doc \<in> set documents"
    and "inner \<noteq> []" and "CHR ''>'' \<notin> set inner"
  shows "doc_text doc \<noteq> pre @ CHR ''<'' # inner @ CHR ''>'' # post"
proof -
  from execute_text[OF assms(1,2)] obtain s where "doc_text doc = stripHtml s" by blast
  with stripHtml_tagless[OF assms(3,4)] show ?thesis by simp
qed

theorem execute_text_has_no_tag_witness:
  "execute example_collator example_fetchList example_fetchDocument [] =
     Some (Inr [example_document],
           [''https://wiki/rest/api/content?limit=1000&status=current&spaceKey=ENG'',
            ''https://wiki/rest/api/content?start=1'',
            ''https://wiki/c/1?expand=body.storage,space,ancestors,version'',
            ''https://wiki/c/2?expand=body.storage,space,ancestors,version''])
   \<and> example_document \<in> set [example_document]
   \<and> ''b'' \<noteq> [] \<and> CHR ''>'' \<notin> set ''b''
   \<and> doc_text example_document \<noteq> ''Hello '' @ CHR ''<'' # ''b'' @ CHR ''>'' # ''World''"
proof -
  have h2: "example_document \<in> set [example_document]" by simp
  have h3: "''b'' \<noteq> []" by simp
  have h4: "CHR ''>'' \<notin> set ''b''" by simp
  from execute_text_has_no_tag[OF example_run h2 h3 h4, of "''Hello ''" "''World''"]
    example_run h2 h3 h4
  show ?thesis by blast
qed

end
